theory Spec2Isabelle
  imports Complex_Main "HOL-Library.Word"
begin

section \<open>The TextSeq2Seq synapse of bittensor\<close>

text \<open>
  A shallow embedding of \<^verbatim>\<open>src/bittensor/_synapse/text_seq2seq_impl.py\<close>. Every
  method of the class \<^verbatim>\<open>TextSeq2Seq\<close> is a HOL function of the instance and the
  method's arguments. A Python exception is the \<open>Inl\<close> branch of a sum. Where the
  effect of a method on the instance matters, its body is also given as a program that
  passes the instance along.
\<close>

subsection \<open>Exceptions\<close>

text \<open>
  \<open>ValueError\<close> is what the three checks raise (the specification calls it
  ShapeError) and what protobuf raises when a Python integer does not fit a field;
  \<open>IndexError\<close> is what \<^verbatim>\<open>Tensor.size(dim)\<close> raises for a dimension the tensor does
  not have; \<open>DecodeError\<close> is what \<^verbatim>\<open>ParseFromString\<close> raises on bytes that are not a
  message (the specification calls it SchemaError).
\<close>

datatype error = ValueError | IndexError | DecodeError

subsection \<open>Tensors\<close>

text \<open>
  Of a \<^verbatim>\<open>torch.Tensor\<close> the synapse reads the shape only. The model keeps the shape,
  the element type and the elements in row-major order.
\<close>

datatype dtype = float32 | int64

record tensor =
  shape :: "nat list"
  dtype :: dtype
  elements :: "real list"

text \<open>\<^verbatim>\<open>t.size(i)\<close> for a non-negative \<^verbatim>\<open>i\<close>: IndexError out of range.\<close>

definition tensor_size :: "tensor \<Rightarrow> nat \<Rightarrow> error + nat" where
  "tensor_size t i =
     (if i < length (shape t) then Inr (shape t ! i) else Inl IndexError)"

text \<open>\<^verbatim>\<open>torch.zeros(shape, dtype=...)\<close>.\<close>

definition torch_zeros :: "nat list \<Rightarrow> dtype \<Rightarrow> tensor" where
  "torch_zeros shp dt =
     \<lparr>shape = shp, dtype = dt, elements = replicate (prod_list shp) 0\<rparr>"

subsection \<open>The instance\<close>

text \<open>
  The values of the protobuf enums \<^verbatim>\<open>Serializer.Type\<close> and \<^verbatim>\<open>ReturnCode\<close> are 32-bit
  integers. Of the enum \<^verbatim>\<open>SynapseType\<close> the source names one member; any other member
  is represented by its number.
\<close>

type_synonym Serializer_Type = "32 word"
type_synonym ReturnCode = "32 word"

datatype SynapseType = TEXT_SEQ_2_SEQ | OTHER_SYNAPSE_TYPE nat

text \<open>
  Modelled from the spec: the base class initialiser (\<^verbatim>\<open>synapse_impl.py\<close>, not among
  the sources) stores its four arguments as the four serializer-type attributes.

  The other attributes are set by \<^verbatim>\<open>__init__\<close> of the class itself. \<^verbatim>\<open>topk\<close> and
  \<^verbatim>\<open>num_to_generate\<close> are Python integers, which are unbounded. The attribute
  \<^verbatim>\<open>self.synapse_type\<close> is the field \<open>self_synapse_type\<close>.
\<close>

record TextSeq2Seq =
  forward_request_serializer_type :: Serializer_Type
  forward_response_serializer_type :: Serializer_Type
  backward_request_serializer_type :: Serializer_Type
  backward_response_serializer_type :: Serializer_Type
  topk :: int
  num_to_generate :: int
  self_synapse_type :: SynapseType

text \<open>
  \<^verbatim>\<open>__init__\<close>, with every argument given: the defaults of the parameters are not
  modelled.
\<close>

definition TextSeq2Seq_init ::
  "int \<Rightarrow> int \<Rightarrow> Serializer_Type \<Rightarrow> Serializer_Type \<Rightarrow> Serializer_Type \<Rightarrow> Serializer_Type
     \<Rightarrow> TextSeq2Seq" where
  "TextSeq2Seq_init k n freq fresp breq bresp =
     \<lparr>forward_request_serializer_type = freq,
      forward_response_serializer_type = fresp,
      backward_request_serializer_type = breq,
      backward_response_serializer_type = bresp,
      topk = k,
      num_to_generate = n,
      self_synapse_type = TEXT_SEQ_2_SEQ\<rparr>"

subsection \<open>Shape checks\<close>

text \<open>
  A check returns \<open>Inr ()\<close> when the method returns and \<open>Inl e\<close> when it raises. The
  \<^verbatim>\<open>raise\<close> of \<^verbatim>\<open>check_forward_response_tensor\<close> formats its message with
  \<^verbatim>\<open>forward_request_tensor.size(0)\<close>, so on a request without dimensions the
  IndexError of that call is what escapes.
\<close>

definition check_forward_request_tensor :: "TextSeq2Seq \<Rightarrow> tensor \<Rightarrow> error + unit" where
  "check_forward_request_tensor self forward_request_tensor =
     (if length (shape forward_request_tensor) \<noteq> 2 then Inl ValueError else Inr ())"

definition raise_forward_response :: "tensor \<Rightarrow> error + unit" where
  "raise_forward_response forward_request_tensor =
     (case tensor_size forward_request_tensor 0 of
        Inl e \<Rightarrow> Inl e
      | Inr _ \<Rightarrow> Inl ValueError)"

definition check_forward_response_tensor ::
  "TextSeq2Seq \<Rightarrow> tensor \<Rightarrow> tensor \<Rightarrow> error + unit" where
  "check_forward_response_tensor self forward_request_tensor forward_response_tensor =
     (if length (shape forward_response_tensor) \<noteq> 2
      then raise_forward_response forward_request_tensor
      else
       (case tensor_size forward_response_tensor 0 of
          Inl e \<Rightarrow> Inl e
        | Inr r0 \<Rightarrow>
           (case tensor_size forward_request_tensor 0 of
              Inl e \<Rightarrow> Inl e
            | Inr q0 \<Rightarrow>
               (if r0 \<noteq> q0 then raise_forward_response forward_request_tensor
                else
                 (case tensor_size forward_response_tensor 1 of
                    Inl e \<Rightarrow> Inl e
                  | Inr r1 \<Rightarrow>
                     (if int r1 > num_to_generate self
                      then raise_forward_response forward_request_tensor
                      else Inr ()))))))"

definition check_backward_request_gradient ::
  "TextSeq2Seq \<Rightarrow> tensor \<Rightarrow> tensor \<Rightarrow> error + unit" where
  "check_backward_request_gradient self forward_request_tensor backward_request_gradient =
     (if shape backward_request_gradient \<noteq> shape forward_request_tensor
      then Inl ValueError else Inr ())"

subsection \<open>Encoding and decoding of tensors\<close>

definition encode_forward_request_tensor :: "TextSeq2Seq \<Rightarrow> tensor \<Rightarrow> tensor" where
  "encode_forward_request_tensor self forward_request_tensor = forward_request_tensor"

definition decode_forward_request_tensor :: "TextSeq2Seq \<Rightarrow> tensor \<Rightarrow> tensor" where
  "decode_forward_request_tensor self forward_request_tensor = forward_request_tensor"

definition encode_forward_response_tensor :: "TextSeq2Seq \<Rightarrow> tensor \<Rightarrow> tensor" where
  "encode_forward_response_tensor self forward_response_tensor = forward_response_tensor"

definition decode_forward_response_tensor :: "TextSeq2Seq \<Rightarrow> tensor \<Rightarrow> tensor" where
  "decode_forward_response_tensor self forward_response_tensor = forward_response_tensor"

definition encode_backward_request_gradient :: "TextSeq2Seq \<Rightarrow> tensor \<Rightarrow> tensor" where
  "encode_backward_request_gradient self backward_request_gradient = backward_request_gradient"

definition decode_backward_request_gradient :: "TextSeq2Seq \<Rightarrow> tensor \<Rightarrow> tensor" where
  "decode_backward_request_gradient self backward_request_gradient = backward_request_gradient"

subsection \<open>Zeroed responses\<close>

text \<open>
  The constant \<^verbatim>\<open>bittensor.__vocab_size__\<close> is not among the sources: it is the
  parameter \<open>vocab_size\<close>. The arguments of \<^verbatim>\<open>torch.zeros\<close> are evaluated from left to
  right, and the first \<^verbatim>\<open>size\<close> call that raises ends the method.
\<close>

definition nill_forward_response_tensor ::
  "nat \<Rightarrow> TextSeq2Seq \<Rightarrow> tensor \<Rightarrow> error + tensor" where
  "nill_forward_response_tensor vocab_size self forward_request_tensor =
     (case tensor_size forward_request_tensor 0 of
        Inl e \<Rightarrow> Inl e
      | Inr d0 \<Rightarrow>
         (case tensor_size forward_request_tensor 1 of
            Inl e \<Rightarrow> Inl e
          | Inr d1 \<Rightarrow> Inr (torch_zeros [d0, d1, vocab_size] float32)))"

definition nill_backward_response_gradient :: "TextSeq2Seq \<Rightarrow> tensor \<Rightarrow> error + tensor" where
  "nill_backward_response_gradient self forward_request_tensor =
     (case tensor_size forward_request_tensor 0 of
        Inl e \<Rightarrow> Inl e
      | Inr d0 \<Rightarrow>
         (case tensor_size forward_request_tensor 1 of
            Inl e \<Rightarrow> Inl e
          | Inr d1 \<Rightarrow>
             (case tensor_size forward_request_tensor 2 of
                Inl e \<Rightarrow> Inl e
              | Inr d2 \<Rightarrow> Inr (torch_zeros [d0, d1, d2] float32))))"

subsection \<open>The instance schema and its protobuf encoding\<close>

text \<open>
  Modelled from the spec: the message \<^verbatim>\<open>bittensor.proto.Synapse.TextSeq2Seq\<close> is
  generated from a schema that is not among the sources. The specification gives its
  fields: \<^verbatim>\<open>topk\<close> and \<^verbatim>\<open>num_to_generate\<close> of type uint32 and the four serializer
  types, which are enums. They are numbered 1 to 6 in the order in which the
  specification lists them.
\<close>

record TextSeq2Seq_proto =
  p_topk :: "32 word"
  p_num_to_generate :: "32 word"
  p_forward_request_serializer_type :: Serializer_Type
  p_forward_response_serializer_type :: Serializer_Type
  p_backward_request_serializer_type :: Serializer_Type
  p_backward_response_serializer_type :: Serializer_Type

text \<open>\<^verbatim>\<open>bittensor.proto.Synapse.TextSeq2Seq()\<close>: every field has its default, zero.\<close>

definition empty_proto :: TextSeq2Seq_proto where
  "empty_proto =
     \<lparr>p_topk = 0, p_num_to_generate = 0,
      p_forward_request_serializer_type = 0,
      p_forward_response_serializer_type = 0,
      p_backward_request_serializer_type = 0,
      p_backward_response_serializer_type = 0\<rparr>"

text \<open>
  Protobuf refuses a Python integer outside the range of a uint32 field with a
  ValueError.
\<close>

definition uint32_field :: "int \<Rightarrow> error + 32 word" where
  "uint32_field i = (if 0 \<le> i \<and> i < 2 ^ 32 then Inr (of_int i) else Inl ValueError)"

text \<open>
  The wire format of protobuf. A varint holds seven bits of the number in each byte,
  the low bits first, and the high bit of a byte says that another byte follows. A
  reader accepts at most ten bytes and keeps 64 bits.
\<close>

type_synonym byte = "8 word"

function encode_varint :: "nat \<Rightarrow> byte list" where
  "encode_varint n =
     (if n < 128 then [of_nat n]
      else of_nat (128 + n mod 128) # encode_varint (n div 128))"
  by pat_completeness auto
termination
  by (relation "measure id") auto

declare encode_varint.simps [simp del]

fun read_varint :: "nat \<Rightarrow> byte list \<Rightarrow> (nat \<times> byte list) option" where
  "read_varint 0 bs = None"
| "read_varint (Suc k) [] = None"
| "read_varint (Suc k) (b # bs) =
     (if unat b < 128 then Some (unat b, bs)
      else (case read_varint k bs of
              None \<Rightarrow> None
            | Some (v, rest) \<Rightarrow> Some (unat b - 128 + 128 * v, rest)))"

definition decode_varint :: "byte list \<Rightarrow> (nat \<times> byte list) option" where
  "decode_varint bs =
     (case read_varint 10 bs of
        None \<Rightarrow> None
      | Some (v, rest) \<Rightarrow> Some (v mod 2 ^ 64, rest))"

text \<open>
  The number a field's value is written as: a uint32 as it is, an enum as the 64-bit
  two's complement of its 32-bit value.
\<close>

definition uint32_wire :: "32 word \<Rightarrow> nat" where
  "uint32_wire w = unat w"

definition enum_wire :: "32 word \<Rightarrow> nat" where
  "enum_wire w = unat (scast w :: 64 word)"

text \<open>
  A field is written as its key, \<open>8 * num + 0\<close> for a varint, and its value. A field
  that has its default value is not written.
\<close>

definition emit_varint_field :: "nat \<Rightarrow> nat \<Rightarrow> byte list" where
  "emit_varint_field num v =
     (if v = 0 then [] else encode_varint (8 * num) @ encode_varint v)"

definition SerializeToString :: "TextSeq2Seq_proto \<Rightarrow> byte list" where
  "SerializeToString p =
     emit_varint_field 1 (uint32_wire (p_topk p)) @
     emit_varint_field 2 (uint32_wire (p_num_to_generate p)) @
     emit_varint_field 3 (enum_wire (p_forward_request_serializer_type p)) @
     emit_varint_field 4 (enum_wire (p_forward_response_serializer_type p)) @
     emit_varint_field 5 (enum_wire (p_backward_request_serializer_type p)) @
     emit_varint_field 6 (enum_wire (p_backward_response_serializer_type p))"

text \<open>
  Reading: a key is \<open>8 * num + wire type\<close> with a field number from 1 to
  \<open>2 ^ 29 - 1\<close>. A varint for one of the six fields is stored, cut to 32 bits, and
  a later value of a field replaces an earlier one. A field the schema does not have
  is skipped: a varint (wire type 0), eight bytes (1), a length and that many bytes
  (2), four bytes (5). Input that ends inside a field and the wire types 6 and 7 are
  errors. Groups (wire types 3 and 4), which proto3 never writes, are not modelled:
  the reader stops with an error on them.
\<close>

definition store_varint :: "nat \<Rightarrow> nat \<Rightarrow> TextSeq2Seq_proto \<Rightarrow> TextSeq2Seq_proto" where
  "store_varint num v p =
     (if num = 1 then p\<lparr>p_topk := of_nat v\<rparr>
      else if num = 2 then p\<lparr>p_num_to_generate := of_nat v\<rparr>
      else if num = 3 then p\<lparr>p_forward_request_serializer_type := of_nat v\<rparr>
      else if num = 4 then p\<lparr>p_forward_response_serializer_type := of_nat v\<rparr>
      else if num = 5 then p\<lparr>p_backward_request_serializer_type := of_nat v\<rparr>
      else if num = 6 then p\<lparr>p_backward_response_serializer_type := of_nat v\<rparr>
      else p)"

function parse_fields :: "byte list \<Rightarrow> TextSeq2Seq_proto \<Rightarrow> error + TextSeq2Seq_proto" where
  "parse_fields bs p =
     (if bs = [] then Inr p
      else
       (case decode_varint bs of
          None \<Rightarrow> Inl DecodeError
        | Some (tag, rest) \<Rightarrow>
           (if tag div 8 = 0 \<or> 2 ^ 29 \<le> tag div 8 then Inl DecodeError
            else if tag mod 8 = 0 then
              (case decode_varint rest of
                 None \<Rightarrow> Inl DecodeError
               | Some (v, rest') \<Rightarrow> parse_fields rest' (store_varint (tag div 8) v p))
            else if tag mod 8 = 1 then
              (if length rest < 8 then Inl DecodeError else parse_fields (drop 8 rest) p)
            else if tag mod 8 = 2 then
              (case decode_varint rest of
                 None \<Rightarrow> Inl DecodeError
               | Some (n, rest') \<Rightarrow>
                  (if length rest' < n then Inl DecodeError
                   else parse_fields (drop n rest') p))
            else if tag mod 8 = 5 then
              (if length rest < 4 then Inl DecodeError else parse_fields (drop 4 rest) p)
            else Inl DecodeError)))"
  by pat_completeness auto
termination
proof -
  have r: "length rest < length bs" if "read_varint k bs = Some (v, rest)" for k bs v rest
    using that
    by (induction k bs arbitrary: v rule: read_varint.induct)
       (auto split: if_splits option.splits)
  have d: "length rest < length bs" if "decode_varint bs = Some (v, rest)" for bs v rest
    using that by (auto simp: decode_varint_def split: option.splits dest: r)
  show ?thesis
    by (relation "measure (\<lambda>(bs, p). length bs)") (auto dest!: d d [OF sym])
qed

declare parse_fields.simps [simp del]

definition ParseFromString :: "byte list \<Rightarrow> error + TextSeq2Seq_proto" where
  "ParseFromString bs = parse_fields bs empty_proto"

subsection \<open>Serialization of the instance\<close>

text \<open>
  The wire message \<^verbatim>\<open>bittensor.proto.Synapse\<close>, with the four fields the source sets.
\<close>

record Synapse =
  synapse_data :: "byte list"
  synapse_type :: SynapseType
  return_code :: ReturnCode
  message :: string

definition deserialize_from_instance_proto :: "TextSeq2Seq_proto \<Rightarrow> TextSeq2Seq" where
  "deserialize_from_instance_proto instance_proto =
     TextSeq2Seq_init
       (uint (p_topk instance_proto))
       (uint (p_num_to_generate instance_proto))
       (p_forward_request_serializer_type instance_proto)
       (p_forward_response_serializer_type instance_proto)
       (p_backward_request_serializer_type instance_proto)
       (p_backward_response_serializer_type instance_proto)"

definition deserialize_from_wire_proto :: "Synapse \<Rightarrow> error + TextSeq2Seq" where
  "deserialize_from_wire_proto wire_proto =
     (case ParseFromString (synapse_data wire_proto) of
        Inl e \<Rightarrow> Inl e
      | Inr instance_proto \<Rightarrow> Inr (deserialize_from_instance_proto instance_proto))"

definition serialize_to_instance_proto :: "TextSeq2Seq \<Rightarrow> error + TextSeq2Seq_proto" where
  "serialize_to_instance_proto self =
     (case uint32_field (topk self) of
        Inl e \<Rightarrow> Inl e
      | Inr k \<Rightarrow>
         (case uint32_field (num_to_generate self) of
            Inl e \<Rightarrow> Inl e
          | Inr n \<Rightarrow>
             Inr \<lparr>p_topk = k, p_num_to_generate = n,
                  p_forward_request_serializer_type = forward_request_serializer_type self,
                  p_forward_response_serializer_type = forward_response_serializer_type self,
                  p_backward_request_serializer_type = backward_request_serializer_type self,
                  p_backward_response_serializer_type =
                    backward_response_serializer_type self\<rparr>))"

definition serialize_to_wire_proto :: "TextSeq2Seq \<Rightarrow> ReturnCode \<Rightarrow> string \<Rightarrow> error + Synapse" where
  "serialize_to_wire_proto self code msg =
     (case serialize_to_instance_proto self of
        Inl e \<Rightarrow> Inl e
      | Inr instance_proto \<Rightarrow>
         Inr \<lparr>synapse_data = SerializeToString instance_proto,
              synapse_type = TEXT_SEQ_2_SEQ,
              return_code = code,
              message = msg\<rparr>)"

text \<open>
  The expression \<^verbatim>\<open>deserialize_from_wire_proto(v.serialize_to_wire_proto(code, msg))\<close>:
  an exception of the inner call ends the evaluation.
\<close>

definition wire_roundtrip :: "TextSeq2Seq \<Rightarrow> ReturnCode \<Rightarrow> string \<Rightarrow> error + TextSeq2Seq" where
  "wire_roundtrip v code msg =
     (case serialize_to_wire_proto v code msg of
        Inl e \<Rightarrow> Inl e
      | Inr wire_proto \<Rightarrow> deserialize_from_wire_proto wire_proto)"

subsection \<open>Method bodies as programs over the instance\<close>

text \<open>
  To say what a method does to the instance it is called on, its body is written
  again as a program that runs on the instance: started on the instance before the
  call, it gives what the method returns or raises, and the instance after the call.
  The programs are made of the statements a body can contain: returning a value,
  raising, evaluating an expression that may raise, reading an attribute of
  \<^verbatim>\<open>self\<close>, assigning to an attribute of \<^verbatim>\<open>self\<close>, and running one statement
  after another, where an exception ends the body and leaves what was assigned so far.
\<close>

type_synonym 'a body = "TextSeq2Seq \<Rightarrow> (error + 'a) \<times> TextSeq2Seq"

definition returns :: "'a \<Rightarrow> 'a body" where
  "returns x = (\<lambda>self. (Inr x, self))"

definition raises :: "error \<Rightarrow> 'a body" where
  "raises e = (\<lambda>self. (Inl e, self))"

definition evaluate :: "error + 'a \<Rightarrow> 'a body" where
  "evaluate r = (\<lambda>self. (r, self))"

definition attribute :: "(TextSeq2Seq \<Rightarrow> 'a) \<Rightarrow> 'a body" where
  "attribute field = (\<lambda>self. (Inr (field self), self))"

definition assign :: "(TextSeq2Seq \<Rightarrow> TextSeq2Seq) \<Rightarrow> unit body" where
  "assign update = (\<lambda>self. (Inr (), update self))"

definition then_do :: "'a body \<Rightarrow> ('a \<Rightarrow> 'b body) \<Rightarrow> 'b body" where
  "then_do m f =
     (\<lambda>self. case m self of
        (Inl e, self') \<Rightarrow> (Inl e, self')
      | (Inr x, self') \<Rightarrow> f x self')"

text \<open>A body that leaves every instance it is run on as it was.\<close>

definition keeps_self :: "'a body \<Rightarrow> bool" where
  "keeps_self m = (\<forall>self. snd (m self) = self)"

text \<open>
  Modelled from the spec: the base class initialiser (\<^verbatim>\<open>synapse_impl.py\<close>, not among
  the sources) assigns its four arguments to the four serializer-type attributes.
\<close>

definition Synapse_init_body ::
  "Serializer_Type \<Rightarrow> Serializer_Type \<Rightarrow> Serializer_Type \<Rightarrow> Serializer_Type \<Rightarrow> unit body" where
  "Synapse_init_body freq fresp breq bresp =
     then_do (assign (\<lambda>self. self\<lparr>forward_request_serializer_type := freq\<rparr>)) (\<lambda>_.
     then_do (assign (\<lambda>self. self\<lparr>forward_response_serializer_type := fresp\<rparr>)) (\<lambda>_.
     then_do (assign (\<lambda>self. self\<lparr>backward_request_serializer_type := breq\<rparr>)) (\<lambda>_.
     assign (\<lambda>self. self\<lparr>backward_response_serializer_type := bresp\<rparr>))))"

text \<open>\<^verbatim>\<open>__init__\<close>: the one body of the class that assigns.\<close>

definition TextSeq2Seq_init_body ::
  "int \<Rightarrow> int \<Rightarrow> Serializer_Type \<Rightarrow> Serializer_Type \<Rightarrow> Serializer_Type \<Rightarrow> Serializer_Type
     \<Rightarrow> unit body" where
  "TextSeq2Seq_init_body k n freq fresp breq bresp =
     then_do (Synapse_init_body freq fresp breq bresp) (\<lambda>_.
     then_do (assign (\<lambda>self. self\<lparr>topk := k\<rparr>)) (\<lambda>_.
     then_do (assign (\<lambda>self. self\<lparr>num_to_generate := n\<rparr>)) (\<lambda>_.
     assign (\<lambda>self. self\<lparr>self_synapse_type := TEXT_SEQ_2_SEQ\<rparr>))))"

text \<open>
  The checks. The message of a \<^verbatim>\<open>ValueError\<close> is formatted before it is raised:
  \<^verbatim>\<open>check_forward_response_tensor\<close> evaluates \<^verbatim>\<open>forward_request_tensor.size(0)\<close> and
  reads \<^verbatim>\<open>self.num_to_generate\<close> for it; \<^verbatim>\<open>__str__\<close>, which formats \<^verbatim>\<open>self\<close>, returns
  a constant.
\<close>

definition check_forward_request_tensor_body :: "tensor \<Rightarrow> unit body" where
  "check_forward_request_tensor_body forward_request_tensor =
     (if length (shape forward_request_tensor) \<noteq> 2 then raises ValueError
      else returns ())"

definition raise_forward_response_body :: "tensor \<Rightarrow> unit body" where
  "raise_forward_response_body forward_request_tensor =
     then_do (evaluate (tensor_size forward_request_tensor 0)) (\<lambda>_.
     then_do (attribute num_to_generate) (\<lambda>_.
     raises ValueError))"

definition check_forward_response_tensor_body :: "tensor \<Rightarrow> tensor \<Rightarrow> unit body" where
  "check_forward_response_tensor_body forward_request_tensor forward_response_tensor =
     (if length (shape forward_response_tensor) \<noteq> 2
      then raise_forward_response_body forward_request_tensor
      else
        then_do (evaluate (tensor_size forward_response_tensor 0)) (\<lambda>r0.
        then_do (evaluate (tensor_size forward_request_tensor 0)) (\<lambda>q0.
          if r0 \<noteq> q0 then raise_forward_response_body forward_request_tensor
          else
            then_do (evaluate (tensor_size forward_response_tensor 1)) (\<lambda>r1.
            then_do (attribute num_to_generate) (\<lambda>n.
              if int r1 > n then raise_forward_response_body forward_request_tensor
              else returns ())))))"

definition check_backward_request_gradient_body :: "tensor \<Rightarrow> tensor \<Rightarrow> unit body" where
  "check_backward_request_gradient_body forward_request_tensor backward_request_gradient =
     (if shape backward_request_gradient \<noteq> shape forward_request_tensor
      then raises ValueError else returns ())"

text \<open>The six encoders and decoders: one \<^verbatim>\<open>return\<close> each.\<close>

definition encode_forward_request_tensor_body :: "tensor \<Rightarrow> tensor body" where
  "encode_forward_request_tensor_body forward_request_tensor = returns forward_request_tensor"

definition decode_forward_request_tensor_body :: "tensor \<Rightarrow> tensor body" where
  "decode_forward_request_tensor_body forward_request_tensor = returns forward_request_tensor"

definition encode_forward_response_tensor_body :: "tensor \<Rightarrow> tensor body" where
  "encode_forward_response_tensor_body forward_response_tensor =
     returns forward_response_tensor"

definition decode_forward_response_tensor_body :: "tensor \<Rightarrow> tensor body" where
  "decode_forward_response_tensor_body forward_response_tensor =
     returns forward_response_tensor"

definition encode_backward_request_gradient_body :: "tensor \<Rightarrow> tensor body" where
  "encode_backward_request_gradient_body backward_request_gradient =
     returns backward_request_gradient"

definition decode_backward_request_gradient_body :: "tensor \<Rightarrow> tensor body" where
  "decode_backward_request_gradient_body backward_request_gradient =
     returns backward_request_gradient"

text \<open>The zeroed responses.\<close>

definition nill_forward_response_tensor_body :: "nat \<Rightarrow> tensor \<Rightarrow> tensor body" where
  "nill_forward_response_tensor_body vocab_size forward_request_tensor =
     then_do (evaluate (tensor_size forward_request_tensor 0)) (\<lambda>d0.
     then_do (evaluate (tensor_size forward_request_tensor 1)) (\<lambda>d1.
     returns (torch_zeros [d0, d1, vocab_size] float32)))"

definition nill_backward_response_gradient_body :: "tensor \<Rightarrow> tensor body" where
  "nill_backward_response_gradient_body forward_request_tensor =
     then_do (evaluate (tensor_size forward_request_tensor 0)) (\<lambda>d0.
     then_do (evaluate (tensor_size forward_request_tensor 1)) (\<lambda>d1.
     then_do (evaluate (tensor_size forward_request_tensor 2)) (\<lambda>d2.
     returns (torch_zeros [d0, d1, d2] float32))))"

text \<open>
  The serialization: the six attributes are read, then the message is built, which
  is where protobuf refuses an integer that does not fit.
\<close>

definition serialize_to_instance_proto_body :: "TextSeq2Seq_proto body" where
  "serialize_to_instance_proto_body =
     then_do (attribute topk) (\<lambda>k.
     then_do (attribute num_to_generate) (\<lambda>n.
     then_do (attribute forward_request_serializer_type) (\<lambda>freq.
     then_do (attribute forward_response_serializer_type) (\<lambda>fresp.
     then_do (attribute backward_request_serializer_type) (\<lambda>breq.
     then_do (attribute backward_response_serializer_type) (\<lambda>bresp.
     then_do (evaluate (uint32_field k)) (\<lambda>k32.
     then_do (evaluate (uint32_field n)) (\<lambda>n32.
     returns \<lparr>p_topk = k32, p_num_to_generate = n32,
              p_forward_request_serializer_type = freq,
              p_forward_response_serializer_type = fresp,
              p_backward_request_serializer_type = breq,
              p_backward_response_serializer_type = bresp\<rparr>))))))))"

definition serialize_to_wire_proto_body :: "ReturnCode \<Rightarrow> string \<Rightarrow> Synapse body" where
  "serialize_to_wire_proto_body code msg =
     then_do serialize_to_instance_proto_body (\<lambda>instance_proto.
     returns \<lparr>synapse_data = SerializeToString instance_proto,
              synapse_type = TEXT_SEQ_2_SEQ,
              return_code = code,
              message = msg\<rparr>)"

subsection \<open>Sequences of calls\<close>

text \<open>
  A call of a method on an instance, with its arguments: the body is run on the
  instance, and the call gives the instance the body leaves, together with what the
  method returned or raised. A caller that catches the exception goes on with the next
  call, on the instance the call left.
\<close>

datatype operation =
    Check_forward_request tensor
  | Check_forward_response tensor tensor
  | Check_backward_gradient tensor tensor
  | Encode_forward_request tensor
  | Decode_forward_request tensor
  | Encode_forward_response tensor
  | Decode_forward_response tensor
  | Encode_backward_gradient tensor
  | Decode_backward_gradient tensor
  | Nill_forward_response tensor
  | Nill_backward_response tensor
  | Serialize_to_wire ReturnCode string

datatype outcome =
    Returned_none
  | Returned_tensor tensor
  | Returned_wire Synapse
  | Raised error

definition of_check :: "error + unit \<Rightarrow> outcome" where
  "of_check r = (case r of Inl e \<Rightarrow> Raised e | Inr _ \<Rightarrow> Returned_none)"

definition of_tensor :: "error + tensor \<Rightarrow> outcome" where
  "of_tensor r = (case r of Inl e \<Rightarrow> Raised e | Inr t \<Rightarrow> Returned_tensor t)"

definition of_wire :: "error + Synapse \<Rightarrow> outcome" where
  "of_wire r = (case r of Inl e \<Rightarrow> Raised e | Inr w \<Rightarrow> Returned_wire w)"

definition run_body ::
  "(error + 'a \<Rightarrow> outcome) \<Rightarrow> 'a body \<Rightarrow> TextSeq2Seq \<Rightarrow> TextSeq2Seq \<times> outcome" where
  "run_body f m self = (case m self of (r, self') \<Rightarrow> (self', f r))"

fun call :: "nat \<Rightarrow> TextSeq2Seq \<Rightarrow> operation \<Rightarrow> TextSeq2Seq \<times> outcome" where
  "call vocab_size self (Check_forward_request t) =
     run_body of_check (check_forward_request_tensor_body t) self"
| "call vocab_size self (Check_forward_response req resp) =
     run_body of_check (check_forward_response_tensor_body req resp) self"
| "call vocab_size self (Check_backward_gradient req grad) =
     run_body of_check (check_backward_request_gradient_body req grad) self"
| "call vocab_size self (Encode_forward_request t) =
     run_body of_tensor (encode_forward_request_tensor_body t) self"
| "call vocab_size self (Decode_forward_request t) =
     run_body of_tensor (decode_forward_request_tensor_body t) self"
| "call vocab_size self (Encode_forward_response t) =
     run_body of_tensor (encode_forward_response_tensor_body t) self"
| "call vocab_size self (Decode_forward_response t) =
     run_body of_tensor (decode_forward_response_tensor_body t) self"
| "call vocab_size self (Encode_backward_gradient t) =
     run_body of_tensor (encode_backward_request_gradient_body t) self"
| "call vocab_size self (Decode_backward_gradient t) =
     run_body of_tensor (decode_backward_request_gradient_body t) self"
| "call vocab_size self (Nill_forward_response req) =
     run_body of_tensor (nill_forward_response_tensor_body vocab_size req) self"
| "call vocab_size self (Nill_backward_response req) =
     run_body of_tensor (nill_backward_response_gradient_body req) self"
| "call vocab_size self (Serialize_to_wire code msg) =
     run_body of_wire (serialize_to_wire_proto_body code msg) self"

fun calls :: "nat \<Rightarrow> TextSeq2Seq \<Rightarrow> operation list \<Rightarrow> TextSeq2Seq \<times> outcome list" where
  "calls vocab_size self [] = (self, [])"
| "calls vocab_size self (x # xs) =
     (case call vocab_size self x of
        (self', r) \<Rightarrow>
          (case calls vocab_size self' xs of
             (self'', rs) \<Rightarrow> (self'', r # rs)))"

section \<open>Properties\<close>

subsection \<open>Auxiliary facts\<close>

lemma validated_rank2:
  "check_forward_request_tensor self t = Inr () \<Longrightarrow> length (shape t) = 2"
  by (simp add: check_forward_request_tensor_def split: if_splits)

lemma read_varint_numeral:
  "read_varint (numeral k) [] = None"
  "read_varint (numeral k) (b # bs) =
     (if unat b < 128 then Some (unat b, bs)
      else (case read_varint (pred_numeral k) bs of
              None \<Rightarrow> None
            | Some (v, rest) \<Rightarrow> Some (unat b - 128 + 128 * v, rest)))"
  by (simp_all add: numeral_eq_Suc)

lemma encode_varint_nonempty [simp]: "encode_varint n \<noteq> []"
  by (simp add: encode_varint.simps [of n])

text \<open>A varint of a number below \<open>128 ^ k\<close> has at most \<open>k\<close> bytes and is read back.\<close>

lemma read_varint_encode:
  "n < 128 ^ k \<Longrightarrow> 0 < k \<Longrightarrow> read_varint k (encode_varint n @ rest) = Some (n, rest)"
proof (induction k arbitrary: n)
  case 0
  then show ?case by simp
next
  case (Suc k)
  show ?case
  proof (cases "n < 128")
    case True
    then have "unat (of_nat n :: byte) = n"
      by (simp add: unat_of_nat)
    with True show ?thesis
      by (simp add: encode_varint.simps [of n])
  next
    case False
    have "unat (of_nat (128 + n mod 128) :: byte) = (128 + n mod 128) mod 2 ^ LENGTH(8)"
      by (rule unat_of_nat)
    also have "\<dots> = 128 + n mod 128"
      by simp
    finally have b: "unat (of_nat (128 + n mod 128) :: byte) = 128 + n mod 128" .
    from Suc.prems have d: "n div 128 < 128 ^ k"
      by (simp add: less_mult_imp_div_less mult.commute)
    from False have "0 < n div 128"
      by (simp add: div_greater_zero_iff)
    with d have "0 < k"
      by (cases k) auto
    with d have "read_varint k (encode_varint (n div 128) @ rest) = Some (n div 128, rest)"
      by (rule Suc.IH)
    with False b show ?thesis
      by (simp add: encode_varint.simps [of n] del: of_nat_add)
  qed
qed

lemma decode_varint_encode:
  assumes "n < 2 ^ 64"
  shows "decode_varint (encode_varint n @ rest) = Some (n, rest)"
proof -
  have "n < 128 ^ 10" using assms by simp
  then have "read_varint 10 (encode_varint n @ rest) = Some (n, rest)"
    by (rule read_varint_encode) simp
  with assms show ?thesis by (simp add: decode_varint_def)
qed

text \<open>Reading a field that was just written stores its value and goes on.\<close>

lemma parse_fields_emit:
  assumes v: "v < 2 ^ 64" and k: "0 < k" "k < 2 ^ 29"
    and z: "v = 0 \<Longrightarrow> store_varint k 0 p = p"
  shows "parse_fields (emit_varint_field k v @ rest) p = parse_fields rest (store_varint k v p)"
proof (cases "v = 0")
  case True
  with z show ?thesis by (simp add: emit_varint_field_def)
next
  case False
  from k have t: "8 * k < 2 ^ 64" by simp
  have d1: "decode_varint (encode_varint (8 * k) @ encode_varint v @ rest) =
      Some (8 * k, encode_varint v @ rest)"
    using t by (rule decode_varint_encode)
  have d2: "decode_varint (encode_varint v @ rest) = Some (v, rest)"
    using v by (rule decode_varint_encode)
  from False k show ?thesis
    by (simp add: emit_varint_field_def
          parse_fields.simps [of "encode_varint (8 * k) @ encode_varint v @ rest"] d1 d2)
qed

lemma uint32_wire_bound: "uint32_wire w < 2 ^ 64"
proof -
  have "unat w < 2 ^ 32"
    using unsigned_less [of w, where ?'a = nat] by simp
  then show ?thesis by (simp add: uint32_wire_def)
qed

lemma enum_wire_bound: "enum_wire w < 2 ^ 64"
  using unsigned_less [of "scast w :: 64 word", where ?'a = nat]
  by (simp add: enum_wire_def)

lemma of_nat_uint32_wire: "of_nat (uint32_wire w) = w"
  by (simp add: uint32_wire_def)

lemma of_nat_enum_wire: "of_nat (enum_wire w) = w"
  unfolding enum_wire_def by (rule bit_word_eqI) (auto simp: bit_simps)

lemma parse_fields_Nil: "parse_fields [] p = Inr p"
  by (simp add: parse_fields.simps [of "[]"])

text \<open>Every message of the schema is read back from its own bytes.\<close>

lemma ParseFromString_SerializeToString: "ParseFromString (SerializeToString p) = Inr p"
proof -
  define e1 where "e1 = emit_varint_field 1 (uint32_wire (p_topk p))"
  define e2 where "e2 = emit_varint_field 2 (uint32_wire (p_num_to_generate p))"
  define e3 where "e3 = emit_varint_field 3 (enum_wire (p_forward_request_serializer_type p))"
  define e4 where "e4 = emit_varint_field 4 (enum_wire (p_forward_response_serializer_type p))"
  define e5 where "e5 = emit_varint_field 5 (enum_wire (p_backward_request_serializer_type p))"
  define e6 where "e6 = emit_varint_field 6 (enum_wire (p_backward_response_serializer_type p))"
  define q1 where "q1 = store_varint 1 (uint32_wire (p_topk p)) empty_proto"
  define q2 where "q2 = store_varint 2 (uint32_wire (p_num_to_generate p)) q1"
  define q3 where "q3 = store_varint 3 (enum_wire (p_forward_request_serializer_type p)) q2"
  define q4 where "q4 = store_varint 4 (enum_wire (p_forward_response_serializer_type p)) q3"
  define q5 where "q5 = store_varint 5 (enum_wire (p_backward_request_serializer_type p)) q4"
  define q6 where "q6 = store_varint 6 (enum_wire (p_backward_response_serializer_type p)) q5"
  have "parse_fields (e1 @ e2 @ e3 @ e4 @ e5 @ e6) empty_proto =
      parse_fields (e2 @ e3 @ e4 @ e5 @ e6) q1"
    unfolding e1_def q1_def
    by (rule parse_fields_emit)
       (simp_all add: uint32_wire_bound [simplified] store_varint_def empty_proto_def)
  also have "\<dots> = parse_fields (e3 @ e4 @ e5 @ e6) q2"
    unfolding e2_def q2_def
    by (rule parse_fields_emit)
       (simp_all add: uint32_wire_bound [simplified] store_varint_def empty_proto_def q1_def)
  also have "\<dots> = parse_fields (e4 @ e5 @ e6) q3"
    unfolding e3_def q3_def
    by (rule parse_fields_emit)
       (simp_all add: enum_wire_bound [simplified] store_varint_def empty_proto_def q1_def
          q2_def)
  also have "\<dots> = parse_fields (e5 @ e6) q4"
    unfolding e4_def q4_def
    by (rule parse_fields_emit)
       (simp_all add: enum_wire_bound [simplified] store_varint_def empty_proto_def q1_def
          q2_def q3_def)
  also have "\<dots> = parse_fields (e6 @ []) q5"
    unfolding e5_def q5_def append_Nil2
    by (rule parse_fields_emit)
       (simp_all add: enum_wire_bound [simplified] store_varint_def empty_proto_def q1_def
          q2_def q3_def q4_def)
  also have "\<dots> = parse_fields [] q6"
    unfolding e6_def q6_def
    by (rule parse_fields_emit)
       (simp_all add: enum_wire_bound [simplified] store_varint_def empty_proto_def q1_def
          q2_def q3_def q4_def q5_def)
  also have "\<dots> = Inr q6"
    by (rule parse_fields_Nil)
  also have "q6 = p"
    by (cases p)
       (simp add: q6_def q5_def q4_def q3_def q2_def q1_def store_varint_def empty_proto_def
          of_nat_uint32_wire of_nat_enum_wire)
  finally show ?thesis
    by (simp add: ParseFromString_def SerializeToString_def e1_def e2_def e3_def e4_def
          e5_def e6_def)
qed

text \<open>The bytes of an instance with \<^verbatim>\<open>topk = 512\<close> and \<^verbatim>\<open>num_to_generate = 10\<close>.\<close>

lemma serialize_to_wire_proto_512_10:
  "serialize_to_wire_proto (TextSeq2Seq_init 512 10 0 0 0 0) code msg =
     Inr \<lparr>synapse_data = [8, 128, 4, 16, 10], synapse_type = TEXT_SEQ_2_SEQ,
          return_code = code, message = msg\<rparr>"
  by (simp add: serialize_to_wire_proto_def serialize_to_instance_proto_def uint32_field_def
        TextSeq2Seq_init_def SerializeToString_def emit_varint_field_def uint32_wire_def
        enum_wire_def encode_varint.simps)

lemma ParseFromString_512_10:
  "ParseFromString [8, 128, 4, 16, 10] =
     Inr (empty_proto\<lparr>p_topk := 512, p_num_to_generate := 10\<rparr>)"
  by (simp add: ParseFromString_def parse_fields.simps decode_varint_def read_varint_numeral
        store_varint_def)

text \<open>
  Input that ends inside a field is refused; a field the schema does not have, here
  field 7 with two bytes of content, is skipped; of two values of a field the later
  one stays.
\<close>

lemma ParseFromString_truncated: "ParseFromString [8] = Inl DecodeError"
  by (simp add: ParseFromString_def parse_fields.simps decode_varint_def read_varint_numeral)

lemma ParseFromString_unknown_field:
  "ParseFromString [58, 2, 1, 1, 8, 5, 8, 6] = Inr (empty_proto\<lparr>p_topk := 6\<rparr>)"
  by (simp add: ParseFromString_def parse_fields.simps decode_varint_def read_varint_numeral
        store_varint_def)

subsection \<open>The zeroed backward gradient\<close>

text \<open>
  On every validated request, which has two dimensions, the call
  \<^verbatim>\<open>forward_request_tensor.size(2)\<close> raises.
\<close>

lemma nill_backward_response_gradient_validated:
  "check_forward_request_tensor self req = Inr () \<Longrightarrow>
     nill_backward_response_gradient self req = Inl IndexError"
  by (drule validated_rank2) (simp add: nill_backward_response_gradient_def tensor_size_def)

text \<open>
  Claim C1: for every validated request, \<^verbatim>\<open>nill_backward_response_gradient\<close> never
  fails and returns zeros of the request's shape; for a request of shape (2, 8) it
  returns zeros of shape (2, 8). The code does not: a request of shape (2, 8) passes
  \<^verbatim>\<open>check_forward_request_tensor\<close>, and the method raises IndexError on it.
\<close>

theorem nill_backward_response_gradient_2_8:
  "check_forward_request_tensor self \<lparr>shape = [2, 8], dtype = int64, elements = xs\<rparr> = Inr () \<and>
   nill_backward_response_gradient self \<lparr>shape = [2, 8], dtype = int64, elements = xs\<rparr>
     = Inl IndexError"
  by (simp add: check_forward_request_tensor_def nill_backward_response_gradient_def
        tensor_size_def)

subsection \<open>The wire round trip\<close>

text \<open>
  Claim C2, as stated: for every constructed instance, every return code and every
  message, deserializing the serialized instance gives the instance back. It fails for
  an instance whose \<^verbatim>\<open>topk\<close> does not fit the uint32 field of the schema: the
  serialization raises ValueError.
\<close>

theorem wire_roundtrip_counterexample:
  "wire_roundtrip (TextSeq2Seq_init 4294967296 512 0 0 0 0) 0 [] \<noteq>
     Inr (TextSeq2Seq_init 4294967296 512 0 0 0 0)"
  by (simp add: wire_roundtrip_def serialize_to_wire_proto_def serialize_to_instance_proto_def
        uint32_field_def TextSeq2Seq_init_def)

text \<open>
  Claim C2, amended: for every constructed instance whose \<^verbatim>\<open>topk\<close> and
  \<^verbatim>\<open>num_to_generate\<close> are in the range of uint32, from 0 to \<open>2 ^ 32 - 1\<close>, every
  return code and every message, deserializing the serialized instance gives an
  instance equal to it in \<^verbatim>\<open>topk\<close>, \<^verbatim>\<open>num_to_generate\<close> and the four serializer
  types.
\<close>

theorem wire_roundtrip_in_range:
  assumes "0 \<le> k" "k < 2 ^ 32" "0 \<le> n" "n < 2 ^ 32"
  shows "wire_roundtrip (TextSeq2Seq_init k n freq fresp breq bresp) code msg =
     Inr (TextSeq2Seq_init k n freq fresp breq bresp)"
proof -
  define p where "p =
     \<lparr>p_topk = of_int k, p_num_to_generate = of_int n,
      p_forward_request_serializer_type = freq,
      p_forward_response_serializer_type = fresp,
      p_backward_request_serializer_type = breq,
      p_backward_response_serializer_type = bresp\<rparr>"
  have s: "serialize_to_instance_proto (TextSeq2Seq_init k n freq fresp breq bresp) = Inr p"
    using assms
    by (simp add: serialize_to_instance_proto_def uint32_field_def TextSeq2Seq_init_def p_def)
  have "uint (of_int k :: 32 word) = k" "uint (of_int n :: 32 word) = n"
    using assms by (simp_all add: uint_word_of_int take_bit_int_eq_self)
  then have d: "deserialize_from_instance_proto p = TextSeq2Seq_init k n freq fresp breq bresp"
    by (simp add: deserialize_from_instance_proto_def p_def)
  show ?thesis
    by (simp add: wire_roundtrip_def serialize_to_wire_proto_def s
          deserialize_from_wire_proto_def ParseFromString_SerializeToString d)
qed

theorem wire_roundtrip_in_range_witness:
  "(0::int) \<le> 512 \<and> (512::int) < 2 ^ 32 \<and> (0::int) \<le> 10 \<and> (10::int) < 2 ^ 32 \<and>
   wire_roundtrip (TextSeq2Seq_init 512 10 0 1 2 0) 3 ''timeout'' =
     Inr (TextSeq2Seq_init 512 10 0 1 2 0)"
  using wire_roundtrip_in_range [of 512 10 0 1 2 0 3 "''timeout''"] by simp

subsection \<open>The checks\<close>

text \<open>
  Claim C3: \<^verbatim>\<open>check_forward_request_tensor\<close> raises exactly when the tensor does not
  have two dimensions, and returns for every tensor that has two, whatever their
  sizes. The check has no result besides returning or raising, its arguments are
  values, and the instance after the call is the instance before it.
\<close>

theorem check_forward_request_tensor_iff:
  "(check_forward_request_tensor self t = Inl ValueError \<longleftrightarrow> length (shape t) \<noteq> 2) \<and>
   (check_forward_request_tensor self t = Inr () \<longleftrightarrow> length (shape t) = 2) \<and>
   check_forward_request_tensor self \<lparr>shape = [d0, d1], dtype = dt, elements = xs\<rparr> = Inr () \<and>
   fst (call vocab_size self (Check_forward_request t)) = self"
  by (simp add: check_forward_request_tensor_def run_body_def
        check_forward_request_tensor_body_def raises_def returns_def)

theorem check_forward_request_tensor_iff_witness:
  "check_forward_request_tensor (TextSeq2Seq_init 512 10 0 0 0 0)
     \<lparr>shape = [1, 6], dtype = int64, elements = [1, 2, 3, 4, 5, 6]\<rparr> = Inr () \<and>
   check_forward_request_tensor (TextSeq2Seq_init 512 10 0 0 0 0)
     \<lparr>shape = [6], dtype = int64, elements = [1, 2, 3, 4, 5, 6]\<rparr> = Inl ValueError \<and>
   check_forward_request_tensor (TextSeq2Seq_init 512 10 0 0 0 0)
     \<lparr>shape = [0, 0], dtype = int64, elements = []\<rparr> = Inr ()"
  using check_forward_request_tensor_iff
      [of "TextSeq2Seq_init 512 10 0 0 0 0"
          "\<lparr>shape = [1, 6], dtype = int64, elements = [1, 2, 3, 4, 5, 6]\<rparr>" 0 0 int64 "[]"]
    check_forward_request_tensor_iff
      [of "TextSeq2Seq_init 512 10 0 0 0 0"
          "\<lparr>shape = [6], dtype = int64, elements = [1, 2, 3, 4, 5, 6]\<rparr>"]
  by simp

text \<open>
  Claim C4: for a validated request, \<^verbatim>\<open>check_forward_response_tensor\<close> raises
  exactly when the response does not have two dimensions, or its dimension 0 differs
  from the request's, or its dimension 1 exceeds \<^verbatim>\<open>num_to_generate\<close>; otherwise it
  returns. With \<^verbatim>\<open>num_to_generate = 10\<close> and a request of shape (1, 6), a response
  of shape (1, 11) is refused and one of shape (1, 10) is accepted.
\<close>

theorem check_forward_response_tensor_iff:
  assumes "check_forward_request_tensor self req = Inr ()"
  shows "check_forward_response_tensor self req resp =
     (if length (shape resp) \<noteq> 2 \<or> shape resp ! 0 \<noteq> shape req ! 0 \<or>
         int (shape resp ! 1) > num_to_generate self
      then Inl ValueError else Inr ())"
proof -
  from assms have "length (shape req) = 2"
    by (rule validated_rank2)
  then have q: "tensor_size req 0 = Inr (shape req ! 0)"
    by (simp add: tensor_size_def)
  show ?thesis
  proof (cases "length (shape resp) = 2")
    case True
    then have "tensor_size resp 0 = Inr (shape resp ! 0)"
      and "tensor_size resp 1 = Inr (shape resp ! 1)"
      by (simp_all add: tensor_size_def)
    with True q show ?thesis
      by (simp add: check_forward_response_tensor_def raise_forward_response_def)
  next
    case False
    with q show ?thesis
      by (simp add: check_forward_response_tensor_def raise_forward_response_def)
  qed
qed

theorem check_forward_response_tensor_iff_witness:
  "check_forward_request_tensor (TextSeq2Seq_init 512 10 0 0 0 0) \<lparr>shape = [1, 6], dtype = int64, elements = [1, 2, 3, 4, 5, 6]\<rparr> = Inr () \<and>
   check_forward_response_tensor (TextSeq2Seq_init 512 10 0 0 0 0) \<lparr>shape = [1, 6], dtype = int64, elements = [1, 2, 3, 4, 5, 6]\<rparr>
     \<lparr>shape = [1, 11], dtype = int64, elements = [1, 2, 3, 4, 5, 6, 7, 8, 9, 10, 11]\<rparr>
     = Inl ValueError \<and>
   check_forward_response_tensor (TextSeq2Seq_init 512 10 0 0 0 0) \<lparr>shape = [1, 6], dtype = int64, elements = [1, 2, 3, 4, 5, 6]\<rparr>
     \<lparr>shape = [1, 10], dtype = int64, elements = [1, 2, 3, 4, 5, 6, 7, 8, 9, 10]\<rparr>
     = Inr ()"
proof -
  let ?self = "TextSeq2Seq_init 512 10 0 0 0 0"
  let ?req = "\<lparr>shape = [1, 6], dtype = int64, elements = [1, 2, 3, 4, 5, 6]\<rparr>"
  have v: "check_forward_request_tensor ?self ?req = Inr ()"
    by (simp add: check_forward_request_tensor_def)
  show ?thesis
    using v
      check_forward_response_tensor_iff [OF v,
        of "\<lparr>shape = [1, 11], dtype = int64,
              elements = [1, 2, 3, 4, 5, 6, 7, 8, 9, 10, 11]\<rparr>"]
      check_forward_response_tensor_iff [OF v,
        of "\<lparr>shape = [1, 10], dtype = int64,
              elements = [1, 2, 3, 4, 5, 6, 7, 8, 9, 10]\<rparr>"]
    by (simp add: TextSeq2Seq_init_def)
qed

text \<open>
  Claim C5: \<^verbatim>\<open>check_backward_request_gradient\<close> raises exactly when the shape of the
  gradient, as a list of dimensions, differs from the shape of the request; otherwise
  it returns. This holds for every request, validated or not.
\<close>

theorem check_backward_request_gradient_iff:
  "(check_backward_request_gradient self req grad = Inl ValueError \<longleftrightarrow>
      shape grad \<noteq> shape req) \<and>
   (check_backward_request_gradient self req grad = Inr () \<longleftrightarrow> shape grad = shape req)"
  by (simp add: check_backward_request_gradient_def)

theorem check_backward_request_gradient_iff_witness:
  "check_backward_request_gradient (TextSeq2Seq_init 512 10 0 0 0 0)
     \<lparr>shape = [1, 2], dtype = int64, elements = [7, 8]\<rparr>
     \<lparr>shape = [1, 2], dtype = float32, elements = [0, 0]\<rparr> = Inr () \<and>
   check_backward_request_gradient (TextSeq2Seq_init 512 10 0 0 0 0)
     \<lparr>shape = [1, 2], dtype = int64, elements = [7, 8]\<rparr>
     \<lparr>shape = [2, 1], dtype = float32, elements = [0, 0]\<rparr> = Inl ValueError"
  using check_backward_request_gradient_iff
      [of "TextSeq2Seq_init 512 10 0 0 0 0"
          "\<lparr>shape = [1, 2], dtype = int64, elements = [7, 8]\<rparr>"
          "\<lparr>shape = [1, 2], dtype = float32, elements = [0, 0]\<rparr>"]
    check_backward_request_gradient_iff
      [of "TextSeq2Seq_init 512 10 0 0 0 0"
          "\<lparr>shape = [1, 2], dtype = int64, elements = [7, 8]\<rparr>"
          "\<lparr>shape = [2, 1], dtype = float32, elements = [0, 0]\<rparr>"]
  by simp

subsection \<open>The zeroed forward response\<close>

text \<open>
  Claim C6: for every validated request, \<^verbatim>\<open>nill_forward_response_tensor\<close> returns,
  and what it returns has the shape (dimension 0 of the request, dimension 1 of the
  request, vocabulary size), the element type float32, and only zeros as elements. For
  a request of shape (1, 4) and a vocabulary of 50000 the shape is (1, 4, 50000).
\<close>

theorem nill_forward_response_tensor_zeros:
  assumes "check_forward_request_tensor self req = Inr ()"
  shows "\<exists>t. nill_forward_response_tensor vocab_size self req = Inr t \<and>
           shape t = [shape req ! 0, shape req ! 1, vocab_size] \<and>
           dtype t = float32 \<and>
           length (elements t) = shape req ! 0 * shape req ! 1 * vocab_size \<and>
           (\<forall>x \<in> set (elements t). x = 0)"
proof -
  from assms have "length (shape req) = 2"
    by (rule validated_rank2)
  then have "nill_forward_response_tensor vocab_size self req =
      Inr (torch_zeros [shape req ! 0, shape req ! 1, vocab_size] float32)"
    by (simp add: nill_forward_response_tensor_def tensor_size_def)
  then show ?thesis
    by (simp add: torch_zeros_def)
qed

theorem nill_forward_response_tensor_zeros_witness:
  "check_forward_request_tensor (TextSeq2Seq_init 512 512 0 0 0 0) \<lparr>shape = [1, 4], dtype = int64, elements = [5, 6, 7, 8]\<rparr> = Inr () \<and>
   (\<exists>t. nill_forward_response_tensor 50000 (TextSeq2Seq_init 512 512 0 0 0 0) \<lparr>shape = [1, 4], dtype = int64, elements = [5, 6, 7, 8]\<rparr> = Inr t \<and>
        shape t = [1, 4, 50000] \<and> dtype t = float32 \<and>
        length (elements t) = 200000 \<and> (\<forall>x \<in> set (elements t). x = 0))"
proof -
  let ?self = "TextSeq2Seq_init 512 512 0 0 0 0"
  let ?req = "\<lparr>shape = [1, 4], dtype = int64, elements = [5, 6, 7, 8]\<rparr>"
  have v: "check_forward_request_tensor ?self ?req = Inr ()"
    by (simp add: check_forward_request_tensor_def)
  show ?thesis
    using v nill_forward_response_tensor_zeros [OF v, of 50000] by simp
qed

subsection \<open>Encoding and decoding are inverse\<close>

text \<open>
  Claim C7: decoding an encoded tensor gives the tensor back, for the forward request,
  the forward response and the backward gradient.
\<close>

theorem encode_decode_identity:
  "decode_forward_request_tensor self (encode_forward_request_tensor self t) = t \<and>
   decode_forward_response_tensor self (encode_forward_response_tensor self t) = t \<and>
   decode_backward_request_gradient self (encode_backward_request_gradient self t) = t"
  by (simp add: decode_forward_request_tensor_def encode_forward_request_tensor_def
        decode_forward_response_tensor_def encode_forward_response_tensor_def
        decode_backward_request_gradient_def encode_backward_request_gradient_def)

subsection \<open>The attributes stay as constructed\<close>

text \<open>
  The bodies compute what the functions of the first part compute: the state-passing
  form and the functional form of a method are two readings of the same source lines.
\<close>

lemma check_forward_request_tensor_body_result:
  "fst (check_forward_request_tensor_body t self) = check_forward_request_tensor self t"
  by (simp add: check_forward_request_tensor_body_def check_forward_request_tensor_def
        raises_def returns_def)

lemma raise_forward_response_body_result:
  "fst (raise_forward_response_body req self) = raise_forward_response req"
  by (simp add: raise_forward_response_body_def raise_forward_response_def then_do_def
        evaluate_def attribute_def raises_def split: sum.splits)

lemma check_forward_response_tensor_body_result:
  "fst (check_forward_response_tensor_body req resp self) =
     check_forward_response_tensor self req resp"
  by (simp add: check_forward_response_tensor_body_def check_forward_response_tensor_def
        raise_forward_response_body_result then_do_def evaluate_def attribute_def returns_def
        split: sum.splits)

lemma check_backward_request_gradient_body_result:
  "fst (check_backward_request_gradient_body req grad self) =
     check_backward_request_gradient self req grad"
  by (simp add: check_backward_request_gradient_body_def check_backward_request_gradient_def
        raises_def returns_def)

lemma nill_forward_response_tensor_body_result:
  "fst (nill_forward_response_tensor_body vocab_size req self) =
     nill_forward_response_tensor vocab_size self req"
  by (simp add: nill_forward_response_tensor_body_def nill_forward_response_tensor_def
        then_do_def evaluate_def returns_def split: sum.splits)

lemma nill_backward_response_gradient_body_result:
  "fst (nill_backward_response_gradient_body req self) =
     nill_backward_response_gradient self req"
  by (simp add: nill_backward_response_gradient_body_def nill_backward_response_gradient_def
        then_do_def evaluate_def returns_def split: sum.splits)

lemma serialize_to_instance_proto_body_result:
  "fst (serialize_to_instance_proto_body self) = serialize_to_instance_proto self"
  by (simp add: serialize_to_instance_proto_body_def serialize_to_instance_proto_def
        then_do_def evaluate_def attribute_def returns_def split: sum.splits)

lemma serialize_to_wire_proto_body_result:
  "fst (serialize_to_wire_proto_body code msg self) = serialize_to_wire_proto self code msg"
proof -
  obtain r s where b: "serialize_to_instance_proto_body self = (r, s)"
    by (cases "serialize_to_instance_proto_body self")
  then have "serialize_to_instance_proto self = r"
    using serialize_to_instance_proto_body_result [of self] by simp
  with b show ?thesis
    by (simp add: serialize_to_wire_proto_body_def serialize_to_wire_proto_def then_do_def
          returns_def split: sum.splits)
qed

text \<open>
  A statement that is not an assignment leaves the instance as it was, and so does a
  sequence of statements that do.
\<close>

lemma keeps_self_returns: "keeps_self (returns x)"
  by (simp add: keeps_self_def returns_def)

lemma keeps_self_raises: "keeps_self (raises e)"
  by (simp add: keeps_self_def raises_def)

lemma keeps_self_evaluate: "keeps_self (evaluate r)"
  by (simp add: keeps_self_def evaluate_def)

lemma keeps_self_attribute: "keeps_self (attribute field)"
  by (simp add: keeps_self_def attribute_def)

lemma keeps_self_then_do:
  assumes "keeps_self m" and "\<And>x. keeps_self (f x)"
  shows "keeps_self (then_do m f)"
proof -
  have "snd (then_do m f self) = self" for self
  proof (cases "m self")
    case (Pair r s)
    with assms(1) have s: "s = self"
      by (auto simp: keeps_self_def dest: spec [of _ self])
    show ?thesis
    proof (cases r)
      case (Inl e)
      with Pair s show ?thesis by (simp add: then_do_def)
    next
      case (Inr x)
      from assms(2) [of x] have "snd (f x self) = self"
        by (simp add: keeps_self_def)
      with Pair s Inr show ?thesis by (simp add: then_do_def)
    qed
  qed
  then show ?thesis by (simp add: keeps_self_def)
qed

lemma keeps_self_if:
  "keeps_self m \<Longrightarrow> keeps_self m' \<Longrightarrow> keeps_self (if c then m else m')"
  by simp

lemmas keeps_self_rules =
  keeps_self_returns keeps_self_raises keeps_self_evaluate keeps_self_attribute
  keeps_self_then_do keeps_self_if

text \<open>An assignment does not: the initialiser changes the instance it runs on.\<close>

lemma TextSeq2Seq_init_body_constructs:
  "TextSeq2Seq_init_body k n freq fresp breq bresp self =
     (Inr (), TextSeq2Seq_init k n freq fresp breq bresp)"
  by (simp add: TextSeq2Seq_init_body_def Synapse_init_body_def then_do_def assign_def
        TextSeq2Seq_init_def)

lemma TextSeq2Seq_init_body_assigns:
  "snd (TextSeq2Seq_init_body k n freq fresp breq bresp
     (TextSeq2Seq_init (k + 1) n freq fresp breq bresp)) \<noteq>
   TextSeq2Seq_init (k + 1) n freq fresp breq bresp"
  by (simp add: TextSeq2Seq_init_body_constructs TextSeq2Seq_init_def)

text \<open>Each of the twelve bodies, by its statements.\<close>

lemma keeps_self_check_forward_request_tensor_body:
  "keeps_self (check_forward_request_tensor_body t)"
  unfolding check_forward_request_tensor_body_def by (intro keeps_self_rules)

lemma keeps_self_raise_forward_response_body:
  "keeps_self (raise_forward_response_body req)"
  unfolding raise_forward_response_body_def by (intro keeps_self_rules)

lemma keeps_self_check_forward_response_tensor_body:
  "keeps_self (check_forward_response_tensor_body req resp)"
  unfolding check_forward_response_tensor_body_def
  by (intro keeps_self_rules keeps_self_raise_forward_response_body)

lemma keeps_self_check_backward_request_gradient_body:
  "keeps_self (check_backward_request_gradient_body req grad)"
  unfolding check_backward_request_gradient_body_def by (intro keeps_self_rules)

lemma keeps_self_encode_decode_bodies:
  "keeps_self (encode_forward_request_tensor_body t)"
  "keeps_self (decode_forward_request_tensor_body t)"
  "keeps_self (encode_forward_response_tensor_body t)"
  "keeps_self (decode_forward_response_tensor_body t)"
  "keeps_self (encode_backward_request_gradient_body t)"
  "keeps_self (decode_backward_request_gradient_body t)"
  unfolding encode_forward_request_tensor_body_def decode_forward_request_tensor_body_def
    encode_forward_response_tensor_body_def decode_forward_response_tensor_body_def
    encode_backward_request_gradient_body_def decode_backward_request_gradient_body_def
  by (rule keeps_self_returns)+

lemma keeps_self_nill_forward_response_tensor_body:
  "keeps_self (nill_forward_response_tensor_body vocab_size req)"
  unfolding nill_forward_response_tensor_body_def by (intro keeps_self_rules)

lemma keeps_self_nill_backward_response_gradient_body:
  "keeps_self (nill_backward_response_gradient_body req)"
  unfolding nill_backward_response_gradient_body_def by (intro keeps_self_rules)

lemma keeps_self_serialize_to_instance_proto_body:
  "keeps_self serialize_to_instance_proto_body"
  unfolding serialize_to_instance_proto_body_def by (intro keeps_self_rules)

lemma keeps_self_serialize_to_wire_proto_body:
  "keeps_self (serialize_to_wire_proto_body code msg)"
  unfolding serialize_to_wire_proto_body_def
  by (intro keeps_self_rules keeps_self_serialize_to_instance_proto_body)

lemma run_body_self: "keeps_self m \<Longrightarrow> fst (run_body f m self) = self"
  by (auto simp: run_body_def keeps_self_def split: prod.splits dest: spec [of _ self])

lemma call_self: "fst (call vocab_size self x) = self"
  by (cases x)
     (simp_all add: run_body_self keeps_self_check_forward_request_tensor_body
        keeps_self_check_forward_response_tensor_body
        keeps_self_check_backward_request_gradient_body keeps_self_encode_decode_bodies
        keeps_self_nill_forward_response_tensor_body
        keeps_self_nill_backward_response_gradient_body
        keeps_self_serialize_to_wire_proto_body)

lemma calls_self: "fst (calls vocab_size self xs) = self"
  by (induction xs arbitrary: self) (simp_all add: case_prod_beta call_self)

lemma length_calls: "length (snd (calls vocab_size self xs)) = length xs"
  by (induction xs arbitrary: self) (simp_all add: case_prod_beta)

text \<open>
  Claim C8: after any sequence of calls of the three checks, the six encoders and
  decoders, the two zeroed responses and the serialization on an instance, whether
  they return or raise, \<^verbatim>\<open>topk\<close>, \<^verbatim>\<open>num_to_generate\<close> and the four serializer types
  of the instance are what they were before the first call, for every instance, so
  also for one that the initialiser has just constructed. Every call of the sequence
  is made: there is one outcome for each.
\<close>

theorem calls_keep_attributes:
  "topk (fst (calls vocab_size self xs)) = topk self \<and>
   num_to_generate (fst (calls vocab_size self xs)) = num_to_generate self \<and>
   forward_request_serializer_type (fst (calls vocab_size self xs)) =
     forward_request_serializer_type self \<and>
   forward_response_serializer_type (fst (calls vocab_size self xs)) =
     forward_response_serializer_type self \<and>
   backward_request_serializer_type (fst (calls vocab_size self xs)) =
     backward_request_serializer_type self \<and>
   backward_response_serializer_type (fst (calls vocab_size self xs)) =
     backward_response_serializer_type self \<and>
   length (snd (calls vocab_size self xs)) = length xs"
  by (simp add: calls_self length_calls)

theorem calls_keep_attributes_witness:
  "topk (fst (calls 50000 (TextSeq2Seq_init 512 10 0 1 2 3)
     [Check_forward_request \<lparr>shape = [1, 2], dtype = int64, elements = [7, 8]\<rparr>,
      Nill_backward_response \<lparr>shape = [1, 2], dtype = int64, elements = [7, 8]\<rparr>,
      Serialize_to_wire 0 [],
      Check_forward_response \<lparr>shape = [1, 2], dtype = int64, elements = [7, 8]\<rparr> \<lparr>shape = [1, 2], dtype = int64, elements = [7, 8]\<rparr>])) = 512 \<and>
   num_to_generate (fst (calls 50000 (TextSeq2Seq_init 512 10 0 1 2 3)
     [Check_forward_request \<lparr>shape = [1, 2], dtype = int64, elements = [7, 8]\<rparr>,
      Nill_backward_response \<lparr>shape = [1, 2], dtype = int64, elements = [7, 8]\<rparr>,
      Serialize_to_wire 0 [],
      Check_forward_response \<lparr>shape = [1, 2], dtype = int64, elements = [7, 8]\<rparr> \<lparr>shape = [1, 2], dtype = int64, elements = [7, 8]\<rparr>])) = 10 \<and>
   forward_request_serializer_type (fst (calls 50000 (TextSeq2Seq_init 512 10 0 1 2 3)
     [Check_forward_request \<lparr>shape = [1, 2], dtype = int64, elements = [7, 8]\<rparr>,
      Nill_backward_response \<lparr>shape = [1, 2], dtype = int64, elements = [7, 8]\<rparr>,
      Serialize_to_wire 0 [],
      Check_forward_response \<lparr>shape = [1, 2], dtype = int64, elements = [7, 8]\<rparr> \<lparr>shape = [1, 2], dtype = int64, elements = [7, 8]\<rparr>])) = 0 \<and>
   forward_response_serializer_type (fst (calls 50000 (TextSeq2Seq_init 512 10 0 1 2 3)
     [Check_forward_request \<lparr>shape = [1, 2], dtype = int64, elements = [7, 8]\<rparr>,
      Nill_backward_response \<lparr>shape = [1, 2], dtype = int64, elements = [7, 8]\<rparr>,
      Serialize_to_wire 0 [],
      Check_forward_response \<lparr>shape = [1, 2], dtype = int64, elements = [7, 8]\<rparr> \<lparr>shape = [1, 2], dtype = int64, elements = [7, 8]\<rparr>])) = 1 \<and>
   backward_request_serializer_type (fst (calls 50000 (TextSeq2Seq_init 512 10 0 1 2 3)
     [Check_forward_request \<lparr>shape = [1, 2], dtype = int64, elements = [7, 8]\<rparr>,
      Nill_backward_response \<lparr>shape = [1, 2], dtype = int64, elements = [7, 8]\<rparr>,
      Serialize_to_wire 0 [],
      Check_forward_response \<lparr>shape = [1, 2], dtype = int64, elements = [7, 8]\<rparr> \<lparr>shape = [1, 2], dtype = int64, elements = [7, 8]\<rparr>])) = 2 \<and>
   backward_response_serializer_type (fst (calls 50000 (TextSeq2Seq_init 512 10 0 1 2 3)
     [Check_forward_request \<lparr>shape = [1, 2], dtype = int64, elements = [7, 8]\<rparr>,
      Nill_backward_response \<lparr>shape = [1, 2], dtype = int64, elements = [7, 8]\<rparr>,
      Serialize_to_wire 0 [],
      Check_forward_response \<lparr>shape = [1, 2], dtype = int64, elements = [7, 8]\<rparr> \<lparr>shape = [1, 2], dtype = int64, elements = [7, 8]\<rparr>])) = 3 \<and>
   snd (calls 50000 (TextSeq2Seq_init 512 10 0 1 2 3)
     [Check_forward_request \<lparr>shape = [1, 2], dtype = int64, elements = [7, 8]\<rparr>,
      Nill_backward_response \<lparr>shape = [1, 2], dtype = int64, elements = [7, 8]\<rparr>,
      Serialize_to_wire 0 [],
      Check_forward_response \<lparr>shape = [1, 2], dtype = int64, elements = [7, 8]\<rparr> \<lparr>shape = [1, 2], dtype = int64, elements = [7, 8]\<rparr>]) =
     [Returned_none, Raised IndexError,
      Returned_wire \<lparr>synapse_data = [8, 128, 4, 16, 10, 32, 1, 40, 2, 48, 3],
                      synapse_type = TEXT_SEQ_2_SEQ, return_code = 0, message = []\<rparr>,
      Returned_none]"
proof -
  let ?ops = "[Check_forward_request \<lparr>shape = [1, 2], dtype = int64, elements = [7, 8]\<rparr>,
      Nill_backward_response \<lparr>shape = [1, 2], dtype = int64, elements = [7, 8]\<rparr>,
      Serialize_to_wire 0 [],
      Check_forward_response \<lparr>shape = [1, 2], dtype = int64, elements = [7, 8]\<rparr> \<lparr>shape = [1, 2], dtype = int64, elements = [7, 8]\<rparr>]"
  have o: "snd (calls 50000 (TextSeq2Seq_init 512 10 0 1 2 3) ?ops) =
     [Returned_none, Raised IndexError,
      Returned_wire \<lparr>synapse_data = [8, 128, 4, 16, 10, 32, 1, 40, 2, 48, 3],
                      synapse_type = TEXT_SEQ_2_SEQ, return_code = 0, message = []\<rparr>,
      Returned_none]"
    by (simp add: run_body_def of_check_def of_tensor_def of_wire_def then_do_def
          evaluate_def attribute_def returns_def raises_def tensor_size_def
          check_forward_request_tensor_body_def check_forward_response_tensor_body_def
          nill_backward_response_gradient_body_def serialize_to_wire_proto_body_def
          serialize_to_instance_proto_body_def uint32_field_def TextSeq2Seq_init_def
          SerializeToString_def emit_varint_field_def uint32_wire_def enum_wire_def
          encode_varint.simps)
  show ?thesis
    using calls_keep_attributes [of 50000 "TextSeq2Seq_init 512 10 0 1 2 3" ?ops] o
    by (simp add: TextSeq2Seq_init_def)
qed

subsection \<open>What the checks and the deserialization do not read\<close>

text \<open>
  Claim C9: \<^verbatim>\<open>deserialize_from_wire_proto\<close> reads the payload bytes only. Two wire
  messages with the same \<^verbatim>\<open>synapse_data\<close> give the same result, whatever their
  \<^verbatim>\<open>synapse_type\<close>, \<^verbatim>\<open>return_code\<close> and \<^verbatim>\<open>message\<close>; a message whose payload is
  read as a message of the schema is deserialized without error whatever its type tag.
\<close>

theorem deserialize_from_wire_proto_reads_data_only:
  "(synapse_data m1 = synapse_data m2 \<longrightarrow>
      deserialize_from_wire_proto m1 = deserialize_from_wire_proto m2) \<and>
   (ParseFromString bs = Inr p \<longrightarrow>
      deserialize_from_wire_proto
        \<lparr>synapse_data = bs, synapse_type = ty, return_code = code, message = msg\<rparr>
      = Inr (deserialize_from_instance_proto p))"
  by (simp add: deserialize_from_wire_proto_def)

theorem deserialize_from_wire_proto_reads_data_only_witness:
  "deserialize_from_wire_proto
     \<lparr>synapse_data = [8, 128, 4, 16, 10], synapse_type = TEXT_SEQ_2_SEQ,
      return_code = 0, message = []\<rparr> =
   deserialize_from_wire_proto
     \<lparr>synapse_data = [8, 128, 4, 16, 10], synapse_type = OTHER_SYNAPSE_TYPE 1,
      return_code = 7, message = ''unknown''\<rparr> \<and>
   ParseFromString [8, 128, 4, 16, 10] =
     Inr (empty_proto\<lparr>p_topk := 512, p_num_to_generate := 10\<rparr>) \<and>
   deserialize_from_wire_proto
     \<lparr>synapse_data = [8, 128, 4, 16, 10], synapse_type = OTHER_SYNAPSE_TYPE 1,
      return_code = 7, message = ''unknown''\<rparr> = Inr (TextSeq2Seq_init 512 10 0 0 0 0)"
  using deserialize_from_wire_proto_reads_data_only
      [of "\<lparr>synapse_data = [8, 128, 4, 16, 10], synapse_type = TEXT_SEQ_2_SEQ,
             return_code = 0, message = []\<rparr>"
          "\<lparr>synapse_data = [8, 128, 4, 16, 10], synapse_type = OTHER_SYNAPSE_TYPE 1,
             return_code = 7, message = ''unknown''\<rparr>"
          "[8, 128, 4, 16, 10]"
          "empty_proto\<lparr>p_topk := 512, p_num_to_generate := 10\<rparr>"
          "OTHER_SYNAPSE_TYPE 1" 7 "''unknown''"]
    ParseFromString_512_10
  by (simp add: deserialize_from_instance_proto_def empty_proto_def)

text \<open>
  Claim C10: of the request, \<^verbatim>\<open>check_forward_response_tensor\<close> reads dimension 0
  only. For two requests that each have at least one dimension and agree on
  dimension 0, the check gives the same result on every response. So a request that
  does not have two dimensions is not refused: the check returns when the response has
  two dimensions, the request's dimension 0 and at most \<^verbatim>\<open>num_to_generate\<close> columns.
\<close>

theorem check_forward_response_tensor_reads_dim0:
  "(shape req1 \<noteq> [] \<and> shape req2 \<noteq> [] \<and> shape req1 ! 0 = shape req2 ! 0 \<longrightarrow>
      check_forward_response_tensor self req1 resp =
      check_forward_response_tensor self req2 resp) \<and>
   (shape req1 \<noteq> [] \<and> length (shape resp) = 2 \<and> shape resp ! 0 = shape req1 ! 0 \<and>
    int (shape resp ! 1) \<le> num_to_generate self \<longrightarrow>
      check_forward_response_tensor self req1 resp = Inr ())"
  by (simp add: check_forward_response_tensor_def raise_forward_response_def tensor_size_def)

theorem check_forward_response_tensor_reads_dim0_witness:
  "check_forward_request_tensor (TextSeq2Seq_init 512 10 0 0 0 0)
     \<lparr>shape = [1], dtype = int64, elements = [3]\<rparr> = Inl ValueError \<and>
   check_forward_response_tensor (TextSeq2Seq_init 512 10 0 0 0 0)
     \<lparr>shape = [1, 6], dtype = int64, elements = [1, 2, 3, 4, 5, 6]\<rparr>
     \<lparr>shape = [1, 10], dtype = int64, elements = [1, 2, 3, 4, 5, 6, 7, 8, 9, 10]\<rparr> =
   check_forward_response_tensor (TextSeq2Seq_init 512 10 0 0 0 0)
     \<lparr>shape = [1], dtype = int64, elements = [3]\<rparr>
     \<lparr>shape = [1, 10], dtype = int64, elements = [1, 2, 3, 4, 5, 6, 7, 8, 9, 10]\<rparr> \<and>
   check_forward_response_tensor (TextSeq2Seq_init 512 10 0 0 0 0)
     \<lparr>shape = [1], dtype = int64, elements = [3]\<rparr>
     \<lparr>shape = [1, 10], dtype = int64, elements = [1, 2, 3, 4, 5, 6, 7, 8, 9, 10]\<rparr> = Inr ()"
  using check_forward_response_tensor_reads_dim0
      [where self = "TextSeq2Seq_init 512 10 0 0 0 0"
         and ?req1.0 = "\<lparr>shape = [1], dtype = int64, elements = [3]\<rparr>"
         and ?req2.0 = "\<lparr>shape = [1, 6], dtype = int64, elements = [1, 2, 3, 4, 5, 6]\<rparr>"
         and resp = "\<lparr>shape = [1, 10], dtype = int64,
                      elements = [1, 2, 3, 4, 5, 6, 7, 8, 9, 10]\<rparr>"]
  by (auto simp add: TextSeq2Seq_init_def check_forward_request_tensor_def)

end
